theory Spec2Isabelle
  imports Complex_Main
begin

section \<open>Numbers and errors shared by the calculators\<close>

text \<open>
  The calculators compute with Python \<open>float\<close> and \<open>decimal.Decimal\<close> values. Both are
  modelled by exact real numbers: a \<open>float\<close> stands for the decimal value its \<open>str\<close> prints
  (which is what \<open>Decimal(str(x))\<close> reads back), and \<open>Decimal\<close> arithmetic is taken
  without the rounding of intermediate results to the 28 significant digits of the default
  context, with all values within that precision (beyond it \<open>quantize\<close> would raise).
  Rounding that the source asks for explicitly (\<open>quantize\<close>, \<open>round\<close>, \<open>int\<close>) is
  modelled as written: \<open>quantize\<close> with \<open>ROUND_HALF_UP\<close> rounds ties away from zero,
  \<open>round\<close> rounds ties to even. Every division of the source is guarded in the model by
  the test that makes Python raise. Strings are ASCII.
\<close>

datatype error =
    AttendanceCalculationError string
  | LoanCalculationError string
  | BMICalculationError string
  | GPACalculationError string
  | CompoundInterestCalculationError string
  | MathCalculationError string
  | ZeroDivisionError
  | IndexError
  | OverflowError
  | ValueError string
  | SyntaxError
  | OtherException string

definition py_int :: "real \<Rightarrow> int" where
  \<comment> \<open>\<open>int(x)\<close> on a number: truncation towards zero.\<close>
  "py_int x = (if 0 \<le> x then \<lfloor>x\<rfloor> else \<lceil>x\<rceil>)"

definition round_half_even :: "real \<Rightarrow> int" where
  "round_half_even y =
     (let f = \<lfloor>y\<rfloor>; d = y - of_int f
      in if d < 1/2 then f else if 1/2 < d then f + 1 else if even f then f else f + 1)"

definition py_round :: "real \<Rightarrow> nat \<Rightarrow> real" where
  \<comment> \<open>\<open>round(x, ndigits)\<close>: to the nearest multiple of \<open>10 ^ -ndigits\<close>, ties to even.\<close>
  "py_round x ndigits = of_int (round_half_even (x * 10 ^ ndigits)) / 10 ^ ndigits"

definition quantize2 :: "real \<Rightarrow> real" where
  \<comment> \<open>\<open>x.quantize(Decimal('0.01'), rounding=ROUND_HALF_UP)\<close>: ties away from zero.\<close>
  "quantize2 x = (if 0 \<le> x then of_int \<lfloor>x * 100 + 1/2\<rfloor> / 100
                  else - (of_int \<lfloor>- x * 100 + 1/2\<rfloor> / 100))"


section \<open>Attendance calculator\<close>

record status_info =
  st_category :: string
  st_description :: string
  st_color :: string

definition get_attendance_status :: "real \<Rightarrow> real \<Rightarrow> status_info" where
  "get_attendance_status percentage target =
     (if percentage \<ge> target + 10 then
        \<lparr>st_category = ''Excellent'', st_description = ''Well above target, great attendance!'',
         st_color = ''#2ecc71''\<rparr>
      else if percentage \<ge> target then
        \<lparr>st_category = ''Good'', st_description = ''Meeting attendance requirements'',
         st_color = ''#27ae60''\<rparr>
      else if percentage \<ge> target - 5 then
        \<lparr>st_category = ''Warning'', st_description = ''Close to minimum requirement'',
         st_color = ''#f39c12''\<rparr>
      else if percentage \<ge> target - 10 then
        \<lparr>st_category = ''Critical'', st_description = ''Below requirement, immediate action needed'',
         st_color = ''#e67e22''\<rparr>
      else
        \<lparr>st_category = ''Danger'', st_description = ''Significantly below requirement'',
         st_color = ''#e74c3c''\<rparr>)"

record attendance_result =
  att_percentage :: real
  att_attended :: int
  att_total :: int
  att_target :: real
  att_classes_needed :: int
  att_can_miss :: int
  att_status :: string

definition classes_needed_of :: "int \<Rightarrow> int \<Rightarrow> real \<Rightarrow> error + int" where
  \<comment> \<open>Lines 53-58 of \<open>calculate_attendance\<close>.\<close>
  "classes_needed_of attended total_held target =
     (let current_percentage = (of_int attended / of_int total_held) * 100
      in if current_percentage < target then
           (if 100 - target = 0 then Inl ZeroDivisionError
            else Inr (max 0 (py_int (((target * of_int total_held) - (100 * of_int attended))
                                      / (100 - target)) + 1)))
         else Inr 0)"

definition can_miss_of :: "int \<Rightarrow> int \<Rightarrow> real \<Rightarrow> error + int" where
  \<comment> \<open>Lines 60-64 of \<open>calculate_attendance\<close>.\<close>
  "can_miss_of attended total_held target =
     (let current_percentage = (of_int attended / of_int total_held) * 100
      in if current_percentage > target then
           (if target = 0 then Inl ZeroDivisionError
            else Inr (py_int ((100 * of_int attended - target * of_int total_held) / target)))
         else Inr 0)"

definition calculate_attendance ::
  "int \<Rightarrow> int \<Rightarrow> real \<Rightarrow> int option \<Rightarrow> error + attendance_result" where
  \<comment> \<open>The call with \<open>detailed=False\<close> (the default).\<close>
  "calculate_attendance attended total_held target total_classes_in_semester =
     (if attended < 0 then
        Inl (AttendanceCalculationError ''Attended classes cannot be negative.'')
      else if total_held \<le> 0 then
        Inl (AttendanceCalculationError ''Total classes must be greater than zero.'')
      else if attended > total_held then
        Inl (AttendanceCalculationError ''Attended classes cannot exceed total classes.'')
      else if target < 0 \<or> target > 100 then
        Inl (AttendanceCalculationError ''Target percentage must be between 0 and 100.'')
      else if (case total_classes_in_semester of None \<Rightarrow> False
               | Some s \<Rightarrow> s \<noteq> 0 \<and> s < total_held) then
        Inl (AttendanceCalculationError
               ''Total semester classes cannot be less than current total.'')
      else
        let current_percentage = (of_int attended / of_int total_held) * 100
        in case classes_needed_of attended total_held target of
             Inl e \<Rightarrow> Inl e
           | Inr classes_needed \<Rightarrow>
               (case can_miss_of attended total_held target of
                  Inl e \<Rightarrow> Inl e
                | Inr can_miss \<Rightarrow>
                    Inr \<lparr>att_percentage = py_round current_percentage 2,
                         att_attended = attended,
                         att_total = total_held,
                         att_target = target,
                         att_classes_needed = classes_needed,
                         att_can_miss = max 0 can_miss,
                         att_status =
                           st_category (get_attendance_status current_percentage target)\<rparr>))"


section \<open>Loan calculator\<close>

definition py_lower :: "string \<Rightarrow> string" where
  \<comment> \<open>\<open>str.lower()\<close> on ASCII text: the letters A-Z are mapped to a-z.\<close>
  "py_lower s = map (\<lambda>c. let n = (of_char c :: nat)
                          in if 65 \<le> n \<and> n \<le> 90 then char_of (n + 32) else c) s"

record schedule_row =
  row_month :: nat
  row_emi :: real
  row_principal :: real
  row_interest :: real
  row_balance :: real
  row_prepayment :: real

record loop_state =
  balance :: real
  total_interest_paid :: real
  total_principal_paid :: real
  schedule :: "schedule_row list"

definition truthy_num :: "('a::zero) option \<Rightarrow> bool" where
  \<comment> \<open>Truth value of an optional number: \<open>None\<close> and zero are false.\<close>
  "truthy_num v = (case v of None \<Rightarrow> False | Some x \<Rightarrow> x \<noteq> 0)"

definition loop_body ::
  "real \<Rightarrow> real \<Rightarrow> real option \<Rightarrow> int option \<Rightarrow> nat \<Rightarrow> loop_state \<Rightarrow> loop_state" where
  \<comment> \<open>One iteration of the schedule loop of \<open>calculate_reducing_balance_loan\<close>
      (lines 109-139).\<close>
  "loop_body emi monthly_rate prepayment prepayment_month month st =
     (let interest_payment = balance st * monthly_rate;
          principal_payment = emi - interest_payment
      in if truthy_num prepayment \<and> truthy_num prepayment_month
            \<and> Some (int month) = prepayment_month then
           let prepayment_amount = the prepayment;
               principal_payment = principal_payment + prepayment_amount;
               balance' = balance st - principal_payment
           in \<lparr>balance = balance',
               total_interest_paid = total_interest_paid st + interest_payment,
               total_principal_paid = total_principal_paid st + principal_payment,
               schedule = schedule st @
                 [\<lparr>row_month = month,
                   row_emi = emi + prepayment_amount,
                   row_principal = quantize2 principal_payment,
                   row_interest = quantize2 interest_payment,
                   row_balance = quantize2 (max balance' 0),
                   row_prepayment = prepayment_amount\<rparr>]\<rparr>
         else
           let balance' = balance st - principal_payment
           in \<lparr>balance = balance',
               total_interest_paid = total_interest_paid st + interest_payment,
               total_principal_paid = total_principal_paid st + principal_payment,
               schedule = schedule st @
                 [\<lparr>row_month = month,
                   row_emi = emi,
                   row_principal = quantize2 principal_payment,
                   row_interest = quantize2 interest_payment,
                   row_balance = quantize2 (max balance' 0),
                   row_prepayment = 0\<rparr>]\<rparr>)"

fun schedule_loop ::
  "real \<Rightarrow> real \<Rightarrow> real option \<Rightarrow> int option \<Rightarrow> nat \<Rightarrow> nat \<Rightarrow> loop_state \<Rightarrow> loop_state" where
  \<comment> \<open>\<open>for month in range(1, months + 1)\<close> with its \<open>break\<close>: the fifth argument counts
      the iterations that remain, the sixth is \<open>month\<close>.\<close>
  "schedule_loop emi monthly_rate prepayment prepayment_month 0 month st = st"
| "schedule_loop emi monthly_rate prepayment prepayment_month (Suc k) month st =
     (let st' = loop_body emi monthly_rate prepayment prepayment_month month st
      in if balance st' \<le> 0 then st'
         else schedule_loop emi monthly_rate prepayment prepayment_month k (Suc month) st')"

definition straight_line_emi :: "real \<Rightarrow> nat \<Rightarrow> error + real" where
  \<comment> \<open>Line 94, the branch \<open>monthly_rate == 0\<close>. A \<open>Decimal\<close> division by zero raises
      \<open>decimal.DivisionByZero\<close>, a \<open>ZeroDivisionError\<close>.\<close>
  "straight_line_emi princ months =
     (if months = 0 then Inl ZeroDivisionError else Inr (princ / of_nat months))"

definition annuity_emi :: "real \<Rightarrow> real \<Rightarrow> nat \<Rightarrow> error + real" where
  \<comment> \<open>Lines 96-97, the annuity formula.\<close>
  "annuity_emi princ monthly_rate months =
     (if (1 + monthly_rate) ^ months - 1 = 0 then Inl ZeroDivisionError
      else Inr ((princ * monthly_rate * (1 + monthly_rate) ^ months)
                 / ((1 + monthly_rate) ^ months - 1)))"

definition compute_emi :: "real \<Rightarrow> real \<Rightarrow> nat \<Rightarrow> error + real" where
  \<comment> \<open>Lines 92-100: the EMI, rounded to 2 decimals.\<close>
  "compute_emi princ monthly_rate months =
     (case (if monthly_rate = 0 then straight_line_emi princ months
            else annuity_emi princ monthly_rate months) of
        Inl e \<Rightarrow> Inl e
      | Inr emi \<Rightarrow> Inr (quantize2 emi))"

record month_breakdown =
  mb_principal :: real
  mb_interest :: real
  mb_principal_percentage :: real
  mb_interest_percentage :: real

definition breakdown_of :: "schedule_row \<Rightarrow> real \<Rightarrow> error + month_breakdown" where
  \<comment> \<open>The \<open>first_month_breakdown\<close> and \<open>last_month_breakdown\<close> entries (lines 172-183):
      both divide by \<open>float(emi)\<close>.\<close>
  "breakdown_of row emi =
     (if emi = 0 then Inl ZeroDivisionError
      else Inr \<lparr>mb_principal = row_principal row,
                mb_interest = row_interest row,
                mb_principal_percentage = py_round ((row_principal row / emi) * 100) 2,
                mb_interest_percentage = py_round ((row_interest row / emi) * 100) 2\<rparr>)"

record loan_result =
  lr_loan_type :: string
  lr_emi :: real
  lr_total_interest :: real
  lr_total_payment :: real
  lr_principal :: real
  lr_interest_rate :: real
  lr_duration_years :: real
  lr_duration_months :: nat
  lr_actual_months_to_payoff :: nat
  lr_amortization_schedule :: "schedule_row list"
  lr_first_month_breakdown :: "month_breakdown option"
  lr_last_month_breakdown :: "month_breakdown option"

definition calculate_reducing_balance_loan ::
  "real \<Rightarrow> real \<Rightarrow> real \<Rightarrow> real option \<Rightarrow> int option \<Rightarrow> error + loan_result" where
  \<comment> \<open>The entries \<open>yearly_summary\<close>, \<open>break_even_analysis\<close>, \<open>affordability_metrics\<close> and
      \<open>interest_to_principal_ratio\<close> of the result are left out: they are computed from the
      values below by operations that do not raise once the schedule exists.\<close>
  "calculate_reducing_balance_loan princ annual_rate years prepayment prepayment_month =
     (let monthly_rate = annual_rate / (12 * 100);
          months = nat (py_int (years * 12))
      in case compute_emi princ monthly_rate months of
           Inl e \<Rightarrow> Inl e
         | Inr emi \<Rightarrow>
             let st = schedule_loop emi monthly_rate prepayment prepayment_month months (Suc 0)
                        \<lparr>balance = princ, total_interest_paid = 0,
                         total_principal_paid = 0, schedule = []\<rparr>;
                 total_payment = emi * of_nat (length (schedule st))
             in if schedule st = [] then Inl IndexError
                else case breakdown_of (hd (schedule st)) emi of
                  Inl e \<Rightarrow> Inl e
                | Inr first_month \<Rightarrow>
                    (case breakdown_of (last (schedule st)) emi of
                       Inl e \<Rightarrow> Inl e
                     | Inr last_month \<Rightarrow>
                         Inr \<lparr>lr_loan_type = ''Reducing Balance'',
                              lr_emi = emi,
                              lr_total_interest = quantize2 (total_interest_paid st),
                              lr_total_payment = quantize2 total_payment,
                              lr_principal = princ,
                              lr_interest_rate = annual_rate,
                              lr_duration_years = years,
                              lr_duration_months = months,
                              lr_actual_months_to_payoff = length (schedule st),
                              lr_amortization_schedule = schedule st,
                              lr_first_month_breakdown = Some first_month,
                              lr_last_month_breakdown = Some last_month\<rparr>))"


fun flat_schedule :: "real \<Rightarrow> real \<Rightarrow> real \<Rightarrow> real \<Rightarrow> nat \<Rightarrow> nat \<Rightarrow> schedule_row list" where
  \<comment> \<open>The schedule loop of \<open>calculate_flat_rate_loan\<close> (lines 207-216): the fifth argument
      counts the iterations that remain, the sixth is \<open>month\<close>.\<close>
  "flat_schedule princ emi principal_per_month interest_per_month 0 month = []"
| "flat_schedule princ emi principal_per_month interest_per_month (Suc k) month =
     \<lparr>row_month = month,
      row_emi = emi,
      row_principal = quantize2 principal_per_month,
      row_interest = quantize2 interest_per_month,
      row_balance = quantize2 (max (princ - principal_per_month * of_nat month) 0),
      row_prepayment = 0\<rparr>
     # flat_schedule princ emi principal_per_month interest_per_month k (Suc month)"

definition calculate_flat_rate_loan :: "real \<Rightarrow> real \<Rightarrow> real \<Rightarrow> error + loan_result" where
  "calculate_flat_rate_loan princ annual_rate years =
     (let months = nat (py_int (years * 12));
          total_interest = princ * (annual_rate / 100) * years;
          total_payment = princ + total_interest
      in if months = 0 then Inl ZeroDivisionError
         else
           let emi = quantize2 (total_payment / of_nat months);
               total_interest = quantize2 total_interest;
               total_payment = quantize2 total_payment;
               principal_per_month = princ / of_nat months;
               interest_per_month = total_interest / of_nat months
           in Inr \<lparr>lr_loan_type = ''Flat Rate'',
                    lr_emi = emi,
                    lr_total_interest = total_interest,
                    lr_total_payment = total_payment,
                    lr_principal = princ,
                    lr_interest_rate = annual_rate,
                    lr_duration_years = years,
                    lr_duration_months = months,
                    lr_actual_months_to_payoff = months,
                    lr_amortization_schedule =
                      flat_schedule princ emi principal_per_month interest_per_month months 1,
                    lr_first_month_breakdown = None,
                    lr_last_month_breakdown = None\<rparr>)"

record loan_simple =
  ls_emi :: real
  ls_total_interest :: real
  ls_total_payment :: real
  ls_principal :: real

datatype loan_response = SimpleLoan loan_simple | DetailedLoan loan_result

definition calculate_loan ::
  "real \<Rightarrow> real \<Rightarrow> real \<Rightarrow> string \<Rightarrow> real option \<Rightarrow> int option \<Rightarrow> bool
     \<Rightarrow> error + loan_response" where
  "calculate_loan amount rate duration loan_type prepayment prepayment_month detailed =
     (if amount \<le> 0 then
        Inl (LoanCalculationError ''Loan amount must be greater than zero.'')
      else if rate < 0 then
        Inl (LoanCalculationError ''Interest rate cannot be negative.'')
      else if duration \<le> 0 then
        Inl (LoanCalculationError ''Loan duration must be greater than zero.'')
      else if amount > 100000000 then
        Inl (LoanCalculationError ''Loan amount exceeds maximum limit.'')
      else if rate > 50 then
        Inl (LoanCalculationError ''Interest rate seems unusually high. Please verify.'')
      else if duration > 40 then
        Inl (LoanCalculationError ''Loan duration exceeds maximum limit of 40 years.'')
      else
        case (if py_lower loan_type = ''flat''
              then calculate_flat_rate_loan amount rate duration
              else calculate_reducing_balance_loan amount rate duration
                     prepayment prepayment_month) of
          Inl e \<Rightarrow> Inl e
        | Inr result \<Rightarrow>
            if \<not> detailed then
              Inr (SimpleLoan \<lparr>ls_emi = lr_emi result,
                               ls_total_interest = lr_total_interest result,
                               ls_total_payment = lr_total_payment result,
                               ls_principal = lr_principal result\<rparr>)
            else Inr (DetailedLoan result))"

definition response_emi :: "loan_response \<Rightarrow> real" where
  \<comment> \<open>The \<open>'emi'\<close> entry of either shape of the response.\<close>
  "response_emi resp = (case resp of SimpleLoan s \<Rightarrow> ls_emi s | DetailedLoan r \<Rightarrow> lr_emi r)"











section \<open>BMI calculator\<close>

record category_info =
  ci_category :: string
  ci_description :: string
  ci_health_risk :: string
  ci_color :: string

definition get_bmi_category :: "real \<Rightarrow> int option \<Rightarrow> category_info" where
  "get_bmi_category bmi age =
     (if truthy_num age \<and> the age < 20 then
        \<lparr>ci_category = ''See pediatric BMI chart'',
         ci_description = ''BMI interpretation differs for individuals under 20'',
         ci_health_risk = ''Consult pediatrician'',
         ci_color = ''#95a5a6''\<rparr>
      else if bmi < 16 then
        \<lparr>ci_category = ''Severe Underweight'',
         ci_description = ''Significantly below healthy weight'',
         ci_health_risk = ''High risk - malnutrition, weakened immunity'',
         ci_color = ''#3498db''\<rparr>
      else if 16 \<le> bmi \<and> bmi < 17 then
        \<lparr>ci_category = ''Moderate Underweight'',
         ci_description = ''Below healthy weight'',
         ci_health_risk = ''Moderate risk - nutritional deficiency'',
         ci_color = ''#5dade2''\<rparr>
      else if 17 \<le> bmi \<and> bmi < 185/10 then
        \<lparr>ci_category = ''Mild Underweight'',
         ci_description = ''Slightly below healthy weight'',
         ci_health_risk = ''Low to moderate risk'',
         ci_color = ''#85c1e9''\<rparr>
      else if 185/10 \<le> bmi \<and> bmi < 25 then
        \<lparr>ci_category = ''Normal Weight'',
         ci_description = ''Healthy weight range'',
         ci_health_risk = ''Low risk - optimal health range'',
         ci_color = ''#2ecc71''\<rparr>
      else if 25 \<le> bmi \<and> bmi < 30 then
        \<lparr>ci_category = ''Overweight'',
         ci_description = ''Above healthy weight'',
         ci_health_risk = ''Moderate risk - increased disease risk'',
         ci_color = ''#f39c12''\<rparr>
      else if 30 \<le> bmi \<and> bmi < 35 then
        \<lparr>ci_category = ''Obese Class I'',
         ci_description = ''Moderately obese'',
         ci_health_risk = ''High risk - cardiovascular, diabetes'',
         ci_color = ''#e67e22''\<rparr>
      else if 35 \<le> bmi \<and> bmi < 40 then
        \<lparr>ci_category = ''Obese Class II'',
         ci_description = ''Severely obese'',
         ci_health_risk = ''Very high risk - serious health complications'',
         ci_color = ''#d35400''\<rparr>
      else
        \<lparr>ci_category = ''Obese Class III'',
         ci_description = ''Morbidly obese'',
         ci_health_risk = ''Extremely high risk - life-threatening conditions'',
         ci_color = ''#e74c3c''\<rparr>)"

record bmi_simple =
  bs_bmi :: real
  bs_category :: string
  bs_color :: string

record bmi_detailed =
  bd_bmi :: real
  bd_bmi_prime :: real
  bd_category :: string
  bd_category_description :: string
  bd_health_risk :: string
  bd_color :: string

datatype bmi_response = SimpleBMI bmi_simple | DetailedBMI bmi_detailed

definition calculate_bmi ::
  "real \<Rightarrow> real \<Rightarrow> int option \<Rightarrow> string option \<Rightarrow> string \<Rightarrow> real option \<Rightarrow> real option
     \<Rightarrow> bool \<Rightarrow> error + bmi_response" where
  \<comment> \<open>The detailed response is modelled with its entries \<open>bmi\<close>, \<open>bmi_prime\<close>,
      \<open>category\<close>, \<open>category_description\<close>, \<open>health_risk\<close> and \<open>color\<close>. The other
      entries (ideal weight, weight goals, body metrics, health risks, caloric needs,
      recommendations) come from helper functions that read the same inputs and have no
      raising operation on validated input; they are left out, and with them the waist and
      hip measurements are only passed through.\<close>
  "calculate_bmi height weight age gender unit_system waist_circumference hip_circumference
       detailed =
     (if height \<le> 0 then
        Inl (BMICalculationError ''Height must be greater than zero.'')
      else if weight \<le> 0 then
        Inl (BMICalculationError ''Weight must be greater than zero.'')
      else if py_lower unit_system \<notin> set [''metric'', ''imperial''] then
        Inl (BMICalculationError ''Unit system must be 'metric' or 'imperial'.'')
      else if (case age of None \<Rightarrow> False | Some a \<Rightarrow> a \<le> 0 \<or> a > 120) then
        Inl (BMICalculationError ''Age must be between 1 and 120 years.'')
      else if (case gender of None \<Rightarrow> False
               | Some g \<Rightarrow> py_lower g \<notin> set [''male'', ''female'']) then
        Inl (BMICalculationError ''Gender must be 'male' or 'female'.'')
      else
        let original_unit = py_lower unit_system;
            height_cm = (if original_unit = ''imperial'' then height * (254/100) else height);
            weight_kg = (if original_unit = ''imperial'' then weight * (453592/1000000)
                         else weight)
        in if height_cm < 50 \<or> height_cm > 300 then
             Inl (BMICalculationError ''Height must be between 50-300 cm (20-118 inches).'')
           else if weight_kg < 20 \<or> weight_kg > 500 then
             Inl (BMICalculationError ''Weight must be between 20-500 kg (44-1100 lbs).'')
           else
             let height_m = height_cm / 100;
                 bmi = py_round (weight_kg / (height_m ^ 2)) 2;
                 category_info = get_bmi_category bmi age;
                 bmi_prime = py_round (bmi / 25) 2
             in if \<not> detailed then
                  Inr (SimpleBMI \<lparr>bs_bmi = bmi,
                                  bs_category = ci_category category_info,
                                  bs_color = ci_color category_info\<rparr>)
                else
                  Inr (DetailedBMI \<lparr>bd_bmi = bmi,
                                    bd_bmi_prime = bmi_prime,
                                    bd_category = ci_category category_info,
                                    bd_category_description = ci_description category_info,
                                    bd_health_risk = ci_health_risk category_info,
                                    bd_color = ci_color category_info\<rparr>))"

definition response_category :: "bmi_response \<Rightarrow> string" where
  \<comment> \<open>The \<open>'category'\<close> entry of either shape of the response.\<close>
  "response_category resp =
     (case resp of SimpleBMI s \<Rightarrow> bs_category s | DetailedBMI d \<Rightarrow> bd_category d)"

definition response_color :: "bmi_response \<Rightarrow> string" where
  \<comment> \<open>The \<open>'color'\<close> entry of either shape of the response.\<close>
  "response_color resp =
     (case resp of SimpleBMI s \<Rightarrow> bs_color s | DetailedBMI d \<Rightarrow> bd_color d)"



section \<open>GPA calculator\<close>

definition py_upper :: "string \<Rightarrow> string" where
  \<comment> \<open>\<open>str.upper()\<close> on ASCII text: the letters a-z are mapped to A-Z.\<close>
  "py_upper s = map (\<lambda>c. let n = (of_char c :: nat)
                          in if 97 \<le> n \<and> n \<le> 122 then char_of (n - 32) else c) s"

definition is_space :: "char \<Rightarrow> bool" where
  \<comment> \<open>The ASCII characters that \<open>str.strip()\<close> removes.\<close>
  "is_space c = (let n = (of_char c :: nat) in (9 \<le> n \<and> n \<le> 13) \<or> (28 \<le> n \<and> n \<le> 32))"

definition py_strip :: "string \<Rightarrow> string" where
  "py_strip s = rev (dropWhile is_space (rev (dropWhile is_space s)))"

datatype credit_value = CreditNum real | CreditStr string

record course =
  c_grade :: "string option"
  c_credits :: "credit_value option"
  c_name :: "string option"

definition get_grade_points :: "string \<Rightarrow> (string \<times> real) list" where
  "get_grade_points scale =
     (if scale = ''5.0'' then
        [(''A+'', 5), (''A'', 5), (''A-'', 47/10),
         (''B+'', 43/10), (''B'', 4), (''B-'', 37/10),
         (''C+'', 33/10), (''C'', 3), (''C-'', 27/10),
         (''D+'', 23/10), (''D'', 2), (''D-'', 17/10),
         (''F'', 0)]
      else
        [(''A+'', 4), (''A'', 4), (''A-'', 37/10),
         (''B+'', 33/10), (''B'', 3), (''B-'', 27/10),
         (''C+'', 23/10), (''C'', 2), (''C-'', 17/10),
         (''D+'', 13/10), (''D'', 1), (''D-'', 7/10),
         (''F'', 0)])"

definition get_letter_grade :: "real \<Rightarrow> string \<Rightarrow> string" where
  "get_letter_grade gpa scale =
     (if scale = ''5.0'' then
        (if gpa \<ge> 47/10 then ''A''
         else if gpa \<ge> 43/10 then ''A-''
         else if gpa \<ge> 4 then ''B+''
         else if gpa \<ge> 37/10 then ''B''
         else if gpa \<ge> 33/10 then ''B-''
         else if gpa \<ge> 3 then ''C+''
         else if gpa \<ge> 27/10 then ''C''
         else if gpa \<ge> 2 then ''D''
         else ''F'')
      else
        (if gpa \<ge> 37/10 then ''A''
         else if gpa \<ge> 33/10 then ''A-''
         else if gpa \<ge> 3 then ''B+''
         else if gpa \<ge> 27/10 then ''B''
         else if gpa \<ge> 23/10 then ''B-''
         else if gpa \<ge> 2 then ''C+''
         else if gpa \<ge> 17/10 then ''C''
         else if gpa \<ge> 1 then ''D''
         else ''F''))"

definition credits_of :: "(string \<Rightarrow> real option) \<Rightarrow> credit_value \<Rightarrow> error + real" where
  \<comment> \<open>Lines 53-56: \<open>float(course['credits'])\<close> with its \<open>ValueError\<close> turned into a
      \<open>GPACalculationError\<close>. The first argument stands for Python's \<open>float\<close> on strings,
      \<open>None\<close> where it raises \<open>ValueError\<close>.\<close>
  "credits_of py_float v =
     (case v of
        CreditNum x \<Rightarrow> Inr x
      | CreditStr s \<Rightarrow>
          (case py_float s of
             None \<Rightarrow> Inl (GPACalculationError (''Invalid credits value: '' @ s))
           | Some x \<Rightarrow> Inr x))"

fun courses_loop ::
  "(string \<Rightarrow> real option) \<Rightarrow> (string \<times> real) list \<Rightarrow> course list \<Rightarrow> real \<times> real
     \<Rightarrow> error + real \<times> real" where
  \<comment> \<open>The loop over the courses (lines 48-66); the state is
      \<open>(total_points, total_credits)\<close>.\<close>
  "courses_loop py_float grade_points [] acc = Inr acc"
| "courses_loop py_float grade_points (c # cs) (total_points, total_credits) =
     (case (c_grade c, c_credits c) of
        (Some g, Some v) \<Rightarrow>
          (let grade = py_strip (py_upper g)
           in case credits_of py_float v of
                Inl e \<Rightarrow> Inl e
              | Inr credits \<Rightarrow>
                  if credits \<le> 0 then
                    Inl (GPACalculationError ''Credits must be greater than zero.'')
                  else
                    (case map_of grade_points grade of
                       None \<Rightarrow>
                         Inl (GPACalculationError
                                (''Invalid grade: '' @ grade
                                 @ ''. Use grades like A+, A, A-, B+, B, etc.''))
                     | Some gp \<Rightarrow>
                         courses_loop py_float grade_points cs
                           (total_points + gp * credits, total_credits + credits)))
      | _ \<Rightarrow> Inl (GPACalculationError ''Each course must have 'grade' and 'credits' fields.''))"

record gpa_result =
  gr_gpa :: real
  gr_total_credits :: real
  gr_grade :: string

definition calculate_gpa ::
  "(string \<Rightarrow> real option) \<Rightarrow> course list \<Rightarrow> string \<Rightarrow> real option \<Rightarrow> real option
     \<Rightarrow> error + gpa_result" where
  \<comment> \<open>The call with \<open>detailed=False\<close> (the default). The first argument stands for
      Python's \<open>float\<close> on strings, \<open>None\<close> where it raises \<open>ValueError\<close>.\<close>
  "calculate_gpa py_float courses scale previous_gpa previous_credits =
     (if courses = [] then Inl (GPACalculationError ''Course list cannot be empty.'')
      else
        let grade_points = get_grade_points scale
        in case courses_loop py_float grade_points courses (0, 0) of
             Inl e \<Rightarrow> Inl e
           | Inr (total_points, total_credits) \<Rightarrow>
               let semester_gpa = (if total_credits > 0 then total_points / total_credits else 0);
                   simple = \<lparr>gr_gpa = py_round semester_gpa 2,
                             gr_total_credits = total_credits,
                             gr_grade = get_letter_grade semester_gpa scale\<rparr>
               in case (previous_gpa, previous_credits) of
                    (Some pg, Some pc) \<Rightarrow>
                      if pc < 0 then
                        Inl (GPACalculationError ''Previous credits cannot be negative.'')
                      else if pg < 0 then
                        Inl (GPACalculationError
                               (''Previous GPA must be between 0 and '' @ scale @ ''.''))
                      else
                        (case py_float scale of
                           None \<Rightarrow>
                             Inl (ValueError (''could not convert string to float: '' @ scale))
                         | Some scale_max \<Rightarrow>
                             if pg > scale_max then
                               Inl (GPACalculationError
                                      (''Previous GPA must be between 0 and '' @ scale @ ''.''))
                             else Inr simple)
                  | _ \<Rightarrow> Inr simple)"

section \<open>Compound interest calculator\<close>

record compound_totals =
  ct_total_amount :: real
  ct_compound_interest :: real
  ct_total_contributions :: real

definition calculate_compound_interest ::
  "real \<Rightarrow> real \<Rightarrow> int \<Rightarrow> int \<Rightarrow> real \<Rightarrow> string \<Rightarrow> real \<Rightarrow> error + compound_totals" where
  \<comment> \<open>Lines 45-88 of \<open>calculate_compound_interest\<close>: the validation and the future values
      \<open>total_amount\<close>, \<open>compound_interest\<close> and \<open>total_contributions\<close>, unrounded. The
      rest of the function (breakdown, effective rate, real returns, metrics) runs after
      these lines, on their values, and is not modelled. A \<open>float\<close> division by zero
      raises \<open>ZeroDivisionError\<close>.\<close>
  "calculate_compound_interest princ rate time frequency monthly_contribution
       contribution_timing inflation_rate =
     (if princ < 0 then
        Inl (CompoundInterestCalculationError ''Principal amount cannot be negative.'')
      else if rate < 0 then
        Inl (CompoundInterestCalculationError ''Interest rate cannot be negative.'')
      else if time \<le> 0 then
        Inl (CompoundInterestCalculationError ''Time period must be greater than zero.'')
      else if frequency \<notin> set [1, 2, 4, 12, 52, 365] then
        Inl (CompoundInterestCalculationError ''Frequency must be 1, 2, 4, 12, 52, or 365.'')
      else if monthly_contribution < 0 then
        Inl (CompoundInterestCalculationError ''Monthly contribution cannot be negative.'')
      else if inflation_rate < 0 \<or> inflation_rate > 100 then
        Inl (CompoundInterestCalculationError ''Inflation rate must be between 0 and 100.'')
      else
        let r = rate / 100;
            n = frequency;
            t = time;
            fv_principal = princ * (1 + r / of_int n) ^ nat (n * t)
        in if monthly_contribution > 0 then
             let contribution_per_period = monthly_contribution * 12 / of_int n;
                 total_periods = n * t
             in if r / of_int n = 0 then Inl ZeroDivisionError
                else
                  let fv_contributions =
                        (if py_lower contribution_timing = ''start'' then
                           contribution_per_period
                             * (((1 + r / of_int n) ^ nat total_periods - 1) / (r / of_int n))
                             * (1 + r / of_int n)
                         else
                           contribution_per_period
                             * (((1 + r / of_int n) ^ nat total_periods - 1) / (r / of_int n)));
                      total_contributions = monthly_contribution * 12 * of_int t;
                      total_amount = fv_principal + fv_contributions
                  in Inr \<lparr>ct_total_amount = total_amount,
                          ct_compound_interest = total_amount - princ - total_contributions,
                          ct_total_contributions = total_contributions\<rparr>
           else
             Inr \<lparr>ct_total_amount = fv_principal + 0,
                  ct_compound_interest = fv_principal + 0 - princ - 0,
                  ct_total_contributions = 0\<rparr>)"

section \<open>Expression calculator\<close>

text \<open>
  \<open>evaluate_expression\<close> hands the rewritten expression to Python's \<open>eval\<close>. The model
  takes what Python does there as arguments: the regular-expression rewriting of
  \<open>preprocess_expression\<close>, the outcome of \<open>eval\<close> (a value or a raised exception), and
  the exception, if any, raised while the extra entries of the detailed response are
  built. What is modelled is the function's own control flow: its checks on the result and
  its \<open>try\<close>/\<open>except\<close> clauses.
\<close>

datatype py_float = Finite real | NaN | PosInfinity | NegInfinity













section \<open>Facts about rounding to cents\<close>



lemma quantize2_nonneg: "0 \<le> x \<Longrightarrow> 0 \<le> quantize2 x"
  unfolding quantize2_def by auto






section \<open>Properties of the attendance calculator\<close>

text \<open>
  C2. Claim: below target, \<open>classes_needed\<close> is the ceiling of
  \<open>(target * total - 100 * attended) / (100 - target)\<close>. The code computes
  \<open>int(x) + 1\<close>, which is one more than the ceiling whenever the quotient is a whole
  number. With 6 of 10 classes attended and a target of 75 the quotient is exactly 6
  (6 further classes give 12 of 16, which is 75 percent), and the code answers 7.
\<close>

theorem classes_needed_exact_quotient:
  "calculate_attendance 6 10 75 None =
     Inr \<lparr>att_percentage = 60, att_attended = 6, att_total = 10, att_target = 75,
          att_classes_needed = 7, att_can_miss = 0, att_status = ''Danger''\<rparr>
   \<and> \<lceil>((75 * 10) - (100 * 6)) / (100 - 75) :: real\<rceil> = 6"
  by (simp add: calculate_attendance_def classes_needed_of_def can_miss_of_def py_int_def
      py_round_def round_half_even_def get_attendance_status_def Let_def)

section \<open>Properties of the loan calculator\<close>

subsection \<open>The schedule loop adds one row per iteration\<close>

lemma loop_body_length:
  "length (schedule (loop_body emi r pp pm month st)) = Suc (length (schedule st))"
  by (simp add: loop_body_def Let_def)

lemma schedule_loop_length_ge:
  "length (schedule st) \<le> length (schedule (schedule_loop emi r pp pm k month st))"
proof (induction k arbitrary: month st)
  case 0
  then show ?case by simp
next
  case (Suc k)
  have "length (schedule st) \<le> length (schedule (loop_body emi r pp pm month st))"
    by (simp add: loop_body_length)
  also have "\<dots> \<le> length (schedule (schedule_loop emi r pp pm k (Suc month)
                                        (loop_body emi r pp pm month st)))"
    by (rule Suc.IH)
  finally show ?case
    by (simp add: Let_def loop_body_length)
qed

lemma schedule_loop_nonempty:
  "0 < k \<Longrightarrow> schedule (schedule_loop emi r pp pm k month st) \<noteq> []"
proof (cases k)
  case 0
  then show "0 < k \<Longrightarrow> ?thesis" by simp
next
  case (Suc j)
  have "Suc (length (schedule st))
          \<le> length (schedule (schedule_loop emi r pp pm j (Suc month)
                                (loop_body emi r pp pm month st)))"
    using schedule_loop_length_ge[of "loop_body emi r pp pm month st" emi r pp pm j "Suc month"]
    by (simp add: loop_body_length)
  moreover have "schedule (loop_body emi r pp pm month st) \<noteq> []"
    using loop_body_length[of emi r pp pm month st] by auto
  ultimately show ?thesis using Suc
    by (auto simp: Let_def)
qed

subsection \<open>Zero interest rate\<close>

text \<open>
  C4. Claim: at rate 0 every valid reducing-balance input succeeds with
  \<open>emi = principal / (duration * 12)\<close> rounded to 2 decimals. The code divides by the
  whole number of months \<open>int(years * 12)\<close>: for 100 over 1.05 years it divides by 12,
  not by 12.6, and returns 8.33 where the claim's formula gives 7.94.
\<close>

theorem zero_rate_counterexample:
  "calculate_loan 100 0 (21/20) ''reducing'' None None False
     = Inr (SimpleLoan \<lparr>ls_emi = 833/100, ls_total_interest = 0,
                        ls_total_payment = 2499/25, ls_principal = 100\<rparr>)
   \<and> quantize2 (100 / ((21/20) * 12)) = 794/100"
  by (simp add: calculate_loan_def py_lower_def calculate_reducing_balance_loan_def py_int_def
      compute_emi_def straight_line_emi_def quantize2_def Let_def loop_body_def truthy_num_def
      breakdown_of_def py_round_def round_half_even_def eval_nat_numeral)

text \<open>
  C4, as amended. At rate 0, for a valid reducing-balance input whose whole number of
  months \<open>int(duration * 12)\<close> is at least 1 and whose rounded EMI is not 0.00,
  \<open>calculate_loan\<close> succeeds and its EMI is the principal divided by that number of
  months, rounded half-up to 2 decimals. The annuity formula is not the branch taken: at
  rate 0 its own division would raise.
\<close>

theorem zero_rate_straight_line:
  assumes "0 < amount" and "amount \<le> 100000000" and "0 < duration" and "duration \<le> 40"
    and "py_lower loan_type \<noteq> ''flat''"
    and "1 \<le> py_int (duration * 12)"
    and "quantize2 (amount / of_int (py_int (duration * 12))) \<noteq> 0"
  shows "(\<exists>resp. calculate_loan amount 0 duration loan_type prepayment prepayment_month detailed
                  = Inr resp
               \<and> response_emi resp = quantize2 (amount / of_int (py_int (duration * 12))))
         \<and> annuity_emi amount 0 (nat (py_int (duration * 12))) = Inl ZeroDivisionError"
proof -
  define months where "months = nat (py_int (duration * 12))"
  have mpos: "0 < months" using assms(6) by (simp add: months_def)
  have mo: "(of_nat months :: real) = of_int (py_int (duration * 12))"
    using assms(6) by (simp add: months_def)
  define e where "e = quantize2 (amount / of_int (py_int (duration * 12)))"
  have e0: "e \<noteq> 0" using assms(7) by (simp add: e_def)
  have ce: "compute_emi amount 0 months = Inr e"
    using mpos by (simp add: compute_emi_def straight_line_emi_def e_def mo)
  define st where "st = schedule_loop e 0 prepayment prepayment_month months (Suc 0)
                        \<lparr>balance = amount, total_interest_paid = 0,
                         total_principal_paid = 0, schedule = []\<rparr>"
  have ne: "schedule st \<noteq> []" unfolding st_def using mpos by (rule schedule_loop_nonempty)
  have "\<exists>res. calculate_reducing_balance_loan amount 0 duration prepayment prepayment_month
                = Inr res \<and> lr_emi res = e"
    using ce ne e0
    by (simp add: calculate_reducing_balance_loan_def Let_def months_def[symmetric]
        st_def[symmetric] breakdown_of_def del: schedule_loop.simps)
  then obtain res where
    res: "calculate_reducing_balance_loan amount 0 duration prepayment prepayment_month = Inr res"
         "lr_emi res = e"
    by blast
  have "\<exists>resp. calculate_loan amount 0 duration loan_type prepayment prepayment_month detailed
                 = Inr resp \<and> response_emi resp = e"
    using assms(1-5) res
    by (cases detailed) (simp_all add: calculate_loan_def response_emi_def)
  moreover have "annuity_emi amount 0 months = Inl ZeroDivisionError"
    by (simp add: annuity_emi_def)
  ultimately show ?thesis
    unfolding e_def months_def by blast
qed

theorem zero_rate_straight_line_witness:
  "(0::real) < 100 \<and> (100::real) \<le> 100000000 \<and> (0::real) < 21/20 \<and> (21/20::real) \<le> 40
   \<and> py_lower ''reducing'' \<noteq> ''flat''
   \<and> 1 \<le> py_int ((21/20) * 12)
   \<and> quantize2 (100 / of_int (py_int ((21/20) * 12))) = 833/100
   \<and> (\<exists>resp. calculate_loan 100 0 (21/20) ''reducing'' None None False = Inr resp
               \<and> response_emi resp = 833/100)
   \<and> annuity_emi 100 0 12 = Inl ZeroDivisionError"
proof -
  have m: "py_int ((21/20) * 12) = 12" by (simp add: py_int_def)
  have q: "quantize2 (100 / of_int (py_int ((21/20) * 12))) = 833/100"
    unfolding m by (simp add: quantize2_def)
  have l: "py_lower ''reducing'' \<noteq> ''flat''" by (simp add: py_lower_def)
  have "(\<exists>resp. calculate_loan 100 0 (21/20) ''reducing'' None None False = Inr resp
               \<and> response_emi resp = quantize2 (100 / of_int (py_int ((21/20) * 12))))
         \<and> annuity_emi 100 0 (nat (py_int ((21/20) * 12))) = Inl ZeroDivisionError"
  proof (rule zero_rate_straight_line)
    show "1 \<le> py_int ((21/20) * 12)" unfolding m by simp
    show "quantize2 (100 / of_int (py_int ((21/20) * 12))) \<noteq> 0" unfolding q by simp
  qed (simp_all add: l)
  then obtain resp where
      r: "calculate_loan 100 0 (21/20) ''reducing'' None None False = Inr resp"
         "response_emi resp = quantize2 (100 / of_int (py_int ((21/20) * 12)))"
    and a: "annuity_emi 100 0 (nat (py_int ((21/20) * 12))) = Inl ZeroDivisionError"
    by blast
  have r2: "response_emi resp = 833/100" using r(2) unfolding q .
  have a2: "annuity_emi 100 0 12 = Inl ZeroDivisionError" using a unfolding m by simp
  have m1: "1 \<le> py_int ((21/20) * 12)" unfolding m by simp
  show ?thesis
    using l m1 q r(1) r2 a2 by (intro conjI exI[of _ resp]) simp_all
qed

subsection \<open>The ledger invariant\<close>










subsection \<open>What a successful call returns\<close>




subsection \<open>Conservation in the ledger\<close>





subsection \<open>A one-time prepayment\<close>








subsection \<open>Total interest and the interest rate\<close>










section \<open>Properties of the BMI calculator\<close>




text \<open>
  C10. Whenever \<open>calculate_bmi\<close> accepts an input with an age below 20, the response, simple
  or detailed, has category \<open>See pediatric BMI chart\<close> and color \<open>#95a5a6\<close>, whatever
  the BMI value is.
\<close>

theorem pediatric_category:
  assumes "calculate_bmi height weight (Some age) gender unit_system waist hip detailed = Inr resp"
    and "age < 20"
  shows "response_category resp = ''See pediatric BMI chart''
         \<and> response_color resp = ''#95a5a6''"
proof -
  have a: "0 < age"
    using assms(1) by (auto simp: calculate_bmi_def split: if_splits)
  then have c: "get_bmi_category b (Some age) =
        \<lparr>ci_category = ''See pediatric BMI chart'',
         ci_description = ''BMI interpretation differs for individuals under 20'',
         ci_health_risk = ''Consult pediatrician'',
         ci_color = ''#95a5a6''\<rparr>" for b
    using assms(2) by (simp add: get_bmi_category_def truthy_num_def)
  show ?thesis
    using assms(1)
    by (auto simp: calculate_bmi_def Let_def c response_category_def response_color_def
             split: if_splits)
qed

theorem pediatric_category_witness:
  "calculate_bmi 150 45 (Some 15) (Some ''female'') ''metric'' None None True
     = Inr (DetailedBMI \<lparr>bd_bmi = 20, bd_bmi_prime = 8/10,
              bd_category = ''See pediatric BMI chart'',
              bd_category_description = ''BMI interpretation differs for individuals under 20'',
              bd_health_risk = ''Consult pediatrician'',
              bd_color = ''#95a5a6''\<rparr>)
   \<and> (15::int) < 20
   \<and> response_category (DetailedBMI \<lparr>bd_bmi = 20, bd_bmi_prime = 8/10,
              bd_category = ''See pediatric BMI chart'',
              bd_category_description = ''BMI interpretation differs for individuals under 20'',
              bd_health_risk = ''Consult pediatrician'',
              bd_color = ''#95a5a6''\<rparr>) = ''See pediatric BMI chart''
   \<and> response_color (DetailedBMI \<lparr>bd_bmi = 20, bd_bmi_prime = 8/10,
              bd_category = ''See pediatric BMI chart'',
              bd_category_description = ''BMI interpretation differs for individuals under 20'',
              bd_health_risk = ''Consult pediatrician'',
              bd_color = ''#95a5a6''\<rparr>) = ''#95a5a6''"
proof -
  have c: "calculate_bmi 150 45 (Some 15) (Some ''female'') ''metric'' None None True
     = Inr (DetailedBMI \<lparr>bd_bmi = 20, bd_bmi_prime = 8/10,
              bd_category = ''See pediatric BMI chart'',
              bd_category_description = ''BMI interpretation differs for individuals under 20'',
              bd_health_risk = ''Consult pediatrician'',
              bd_color = ''#95a5a6''\<rparr>)"
    by code_simp
  have a: "(15::int) < 20" by simp
  note t = pediatric_category[OF c a]
  show ?thesis using c a t by (intro conjI) simp_all
qed

section \<open>Properties of the GPA calculator\<close>

text \<open>
  C6. Claim: \<open>calculate_gpa\<close> fails with a validation error for every scale other than
  \<open>4.0\<close> and \<open>5.0\<close>. With scale \<open>3.0\<close> and one course graded A for 3 credits the
  call succeeds and reports a GPA of 4.0, from the grade points of the 4.0 scale.
  (\<open>float\<close> is not called on a string here, so the first argument does not matter.)
\<close>

theorem unsupported_scale_counterexample:
  "calculate_gpa Map.empty
     [\<lparr>c_grade = Some ''A'', c_credits = Some (CreditNum 3), c_name = None\<rparr>]
     ''3.0'' None None
   = Inr \<lparr>gr_gpa = 4, gr_total_credits = 3, gr_grade = ''A''\<rparr>"
  by code_simp

text \<open>
  C6, as amended. \<open>calculate_gpa\<close> does not validate the scale: \<open>get_grade_points\<close> gives the
  5.0 table (A is worth 5 points) for scale \<open>5.0\<close> and the 4.0 table (A is worth 4 points)
  for every other scale value, and \<open>get_letter_grade\<close> takes the same two branches. With
  any scale other than \<open>5.0\<close>, a call in the simple format (\<open>detailed=False\<close>, the default,
  which is the call modelled here) without previous GPA data returns exactly what it
  returns for scale \<open>4.0\<close>, errors included, so no error is raised on account of the scale.
  (The detailed response is not covered: it repeats the scale that was passed and chooses
  its what-if targets by \<open>scale == "4.0"\<close>.)
\<close>

theorem unsupported_scale_defaults:
  assumes "scale \<noteq> ''5.0''"
  shows "get_grade_points scale = get_grade_points ''4.0''
     \<and> map_of (get_grade_points scale) ''A'' = Some 4
     \<and> map_of (get_grade_points ''5.0'') ''A'' = Some 5
     \<and> (\<forall>gpa. get_letter_grade gpa scale = get_letter_grade gpa ''4.0'')
     \<and> calculate_gpa py_float courses scale None None
       = calculate_gpa py_float courses ''4.0'' None None"
proof -
  have g: "get_grade_points scale = get_grade_points ''4.0''"
    using assms by (simp add: get_grade_points_def)
  have l: "get_letter_grade gpa scale = get_letter_grade gpa ''4.0''" for gpa
    using assms by (simp add: get_letter_grade_def)
  have "calculate_gpa py_float courses scale None None
       = calculate_gpa py_float courses ''4.0'' None None"
    unfolding calculate_gpa_def g l by (simp add: Let_def split: sum.splits prod.splits)
  moreover have "map_of (get_grade_points scale) ''A'' = Some 4"
    unfolding g by (simp add: get_grade_points_def)
  moreover have "map_of (get_grade_points ''5.0'') ''A'' = Some 5"
    by (simp add: get_grade_points_def)
  ultimately show ?thesis using g l by simp
qed

theorem unsupported_scale_defaults_witness:
  "''3.0'' \<noteq> ''5.0''
   \<and> get_grade_points ''3.0'' = get_grade_points ''4.0''
   \<and> calculate_gpa Map.empty
        [\<lparr>c_grade = Some ''A'', c_credits = Some (CreditNum 3), c_name = None\<rparr>]
        ''3.0'' None None
     = calculate_gpa Map.empty
        [\<lparr>c_grade = Some ''A'', c_credits = Some (CreditNum 3), c_name = None\<rparr>]
        ''4.0'' None None"
proof -
  have n: "''3.0'' \<noteq> ''5.0''" by simp
  show ?thesis
    using n unsupported_scale_defaults[OF n, of Map.empty
      "[\<lparr>c_grade = Some ''A'', c_credits = Some (CreditNum 3), c_name = None\<rparr>]"]
    by blast
qed

section \<open>Properties of the compound interest calculator\<close>

text \<open>
  C5. Claim: every input that passes validation, also rate 0 with a monthly contribution,
  gets a result. Validation accepts rate 0, and with a positive monthly contribution the
  annuity formula then divides by \<open>r / n = 0\<close>: for principal 1000, rate 0, one year,
  monthly compounding and a contribution of 100 the call ends in \<open>ZeroDivisionError\<close>.
\<close>

theorem zero_rate_contribution_raises:
  "calculate_compound_interest 1000 0 1 12 100 ''end'' 0 = Inl ZeroDivisionError"
  by (simp add: calculate_compound_interest_def)

section \<open>Properties of the expression calculator\<close>







end
